theory Spec2Isabelle
  imports Complex_Main
begin

section \<open>Values of the dashboard's tables\<close>

text \<open>
  The tables are read with \<^verbatim>\<open>pd.read_sql\<close>; a cell of the resulting frame is a
  Python scalar. Numbers are kept as exact rationals, extended by the two infinities and
  NaN of a Python float. A float cell is its value; an integer or decimal cell is taken to
  be a value that a double holds exactly, so that \<^verbatim>\<open>float\<close> does not round it.
\<close>

datatype pyfloat = NaN | NegInf | Fin rat | PosInf

text \<open>\<^verbatim>\<open>x < t\<close> and \<^verbatim>\<open>x > t\<close> for a float \<open>x\<close> and a finite constant \<open>t\<close>:
  every comparison with NaN is false.\<close>

fun fl_lt :: "pyfloat \<Rightarrow> rat \<Rightarrow> bool" where
  "fl_lt NaN t = False"
| "fl_lt NegInf t = True"
| "fl_lt (Fin q) t = (q < t)"
| "fl_lt PosInf t = False"

fun fl_gt :: "pyfloat \<Rightarrow> rat \<Rightarrow> bool" where
  "fl_gt NaN t = False"
| "fl_gt NegInf t = False"
| "fl_gt (Fin q) t = (q > t)"
| "fl_gt PosInf t = True"

text \<open>
  A cell: \<open>PyNone\<close> is a missing value that is not a float (\<^verbatim>\<open>None\<close>, \<^verbatim>\<open>NaT\<close>),
  \<open>PyNum\<close> a number (a missing number is \<open>PyNum NaN\<close>), \<open>PyStr\<close> a string and
  \<open>PyObj\<close> any other object (a timestamp, a byte string).
\<close>

datatype cell = PyNone | PyNum pyfloat | PyStr string | PyObj

datatype pyerr = TypeError | ValueError

text \<open>\<^verbatim>\<open>pd.notnull\<close> on a scalar.\<close>

fun notnull :: "cell \<Rightarrow> bool" where
  "notnull PyNone = False"
| "notnull (PyNum NaN) = False"
| "notnull (PyNum x) = True"
| "notnull (PyStr s) = True"
| "notnull PyObj = True"

text \<open>
  The builtin \<^verbatim>\<open>float\<close>. What it makes of a string is the interpreter's business and is
  a parameter \<open>sf\<close> of the model (\<open>None\<close> where \<^verbatim>\<open>float\<close> raises \<^verbatim>\<open>ValueError\<close>).
\<close>

fun py_float :: "(string \<Rightarrow> pyfloat option) \<Rightarrow> cell \<Rightarrow> pyerr + pyfloat" where
  "py_float sf PyNone = Inl TypeError"
| "py_float sf (PyNum x) = Inr x"
| "py_float sf (PyStr s) = (case sf s of None \<Rightarrow> Inl ValueError | Some x \<Rightarrow> Inr x)"
| "py_float sf PyObj = Inl TypeError"

text \<open>\<^verbatim>\<open>str\<close> of an integer, for the f-strings.\<close>

definition digit_chr :: "nat \<Rightarrow> char" where
  "digit_chr n = ''0123456789'' ! n"

function str_nat :: "nat \<Rightarrow> string" where
  "str_nat n = (if n < 10 then [digit_chr n] else str_nat (n div 10) @ [digit_chr (n mod 10)])"
  by pat_completeness auto
termination
  by (relation "measure id") auto

declare str_nat.simps [simp del]

definition str_int :: "int \<Rightarrow> string" where
  "str_int i = (if i < 0 then CHR ''-'' # str_nat (nat (- i)) else str_nat (nat i))"

section \<open>constraints.py\<close>

text \<open>
  A frame is its columns in order, each a label and the cells of the rows. The labels of
  one table are distinct, so \<^verbatim>\<open>df[column]\<close> is the one column of that label.
\<close>

type_synonym dataframe = "(string \<times> cell list) list"

definition CONSTRAINTS :: "(string \<times> (string \<times> int \<times> int) list) list" where
  "CONSTRAINTS =
    [(''river_data'', [(''water_level'', 1000, 2000)]),
     (''dam_data'', [(''capacity'', 5000, 10000)]),
     (''epan_data'', [(''some_column'', 100, 200)]),
     (''aws_data'', [(''temperature'', 100, 200)]),
     (''ars_data'', [(''pressure'', 500, 1000)]),
     (''gate_data'', [(''status'', 2, 3)])]"

text \<open>
  The elementwise comparison of a column with an integer: a missing value compares false,
  a string or another object raises \<^verbatim>\<open>TypeError\<close>.
\<close>

fun cell_lt :: "cell \<Rightarrow> int \<Rightarrow> pyerr + bool" where
  "cell_lt PyNone n = Inr False"
| "cell_lt (PyNum x) n = Inr (fl_lt x (of_int n))"
| "cell_lt (PyStr s) n = Inl TypeError"
| "cell_lt PyObj n = Inl TypeError"

fun cell_gt :: "cell \<Rightarrow> int \<Rightarrow> pyerr + bool" where
  "cell_gt PyNone n = Inr False"
| "cell_gt (PyNum x) n = Inr (fl_gt x (of_int n))"
| "cell_gt (PyStr s) n = Inl TypeError"
| "cell_gt PyObj n = Inl TypeError"

primrec compare_all :: "(cell \<Rightarrow> pyerr + bool) \<Rightarrow> cell list \<Rightarrow> pyerr + bool list" where
  "compare_all f [] = Inr []"
| "compare_all f (c # cs) =
     (case f c of
        Inl e \<Rightarrow> Inl e
      | Inr b \<Rightarrow> (case compare_all f cs of Inl e \<Rightarrow> Inl e | Inr bs \<Rightarrow> Inr (b # bs)))"

definition alert_msg :: "string \<Rightarrow> string \<Rightarrow> int \<Rightarrow> int \<Rightarrow> nat \<Rightarrow> string" where
  "alert_msg table_name column min_val max_val n =
     ''Constraint violation in '' @ table_name @ '' for column '' @ [CHR 0x27] @ column
       @ [CHR 0x27] @ '': ''
     @ ''Values outside ['' @ str_int min_val @ '', '' @ str_int max_val @ '']. ''
     @ ''Found '' @ str_nat n @ '' invalid entries.''"

text \<open>The body of the loop over the rules of a table; \<open>alerts\<close> is the list built so far.\<close>

definition check_rule ::
  "dataframe \<Rightarrow> string \<Rightarrow> string list \<Rightarrow> string \<times> int \<times> int \<Rightarrow> pyerr + string list" where
  "check_rule df table_name alerts rule =
     (case rule of (column, min_val, max_val) \<Rightarrow>
        (case map_of df column of
           None \<Rightarrow> Inr alerts
         | Some cells \<Rightarrow>
             (case compare_all (\<lambda>c. cell_lt c min_val) cells of
                Inl e \<Rightarrow> Inl e
              | Inr lows \<Rightarrow>
                  (case compare_all (\<lambda>c. cell_gt c max_val) cells of
                     Inl e \<Rightarrow> Inl e
                   | Inr highs \<Rightarrow>
                       (let invalid_rows = filter id (map2 (\<or>) lows highs)
                        in if invalid_rows \<noteq> []
                           then Inr (alerts @
                                  [alert_msg table_name column min_val max_val (length invalid_rows)])
                           else Inr alerts)))))"

fun run_rules ::
  "dataframe \<Rightarrow> string \<Rightarrow> (string \<times> int \<times> int) list \<Rightarrow> string list \<Rightarrow> pyerr + string list" where
  "run_rules df table_name [] alerts = Inr alerts"
| "run_rules df table_name (rule # rules) alerts =
     (case check_rule df table_name alerts rule of
        Inl e \<Rightarrow> Inl e
      | Inr alerts' \<Rightarrow> run_rules df table_name rules alerts')"

definition check_constraints :: "dataframe \<Rightarrow> string \<Rightarrow> pyerr + string list" where
  "check_constraints df table_name =
     run_rules df table_name
       (case map_of CONSTRAINTS table_name of None \<Rightarrow> [] | Some rules \<Rightarrow> rules) []"

section \<open>db.py\<close>

text \<open>
  What \<^verbatim>\<open>pd.read_sql\<close> can raise. The errors of the database layer are subclasses of
  \<^verbatim>\<open>Exception\<close> and carry a message; \<^verbatim>\<open>KeyboardInterrupt\<close> is not one.
\<close>

datatype pyexc =
    OperationalError string
  | ProgrammingError string
  | InterfaceError string
  | KeyboardInterrupt

fun is_Exception :: "pyexc \<Rightarrow> bool" where
  "is_Exception KeyboardInterrupt = False"
| "is_Exception e = True"

fun exc_str :: "pyexc \<Rightarrow> string" where
  "exc_str (OperationalError m) = m"
| "exc_str (ProgrammingError m) = m"
| "exc_str (InterfaceError m) = m"
| "exc_str KeyboardInterrupt = []"

text \<open>
  The store is whatever answers \<^verbatim>\<open>pd.read_sql(text(query), engine.connect(), params)\<close>:
  a parameter of the model, from the query text and the bound parameters to a frame or
  an exception.
\<close>

type_synonym store = "string \<Rightarrow> (string \<times> cell) list \<Rightarrow> pyexc + dataframe"

text \<open>The keyword arguments of \<^verbatim>\<open>fetch_data\<close> and their defaults; \<open>None\<close> is Python's.\<close>

record fetch_args =
  start_date :: "string option"
  end_date :: "string option"
  date_column :: "string option"
  filter_column :: "string option"
  filter_value :: "cell option"

definition defaults :: fetch_args where
  "defaults = \<lparr>start_date = None, end_date = None, date_column = Some ''data_date'',
               filter_column = None, filter_value = None\<rparr>"

text \<open>The truth value of an optional string, and how an f-string prints it.\<close>

definition truthy :: "string option \<Rightarrow> bool" where
  "truthy s = (case s of None \<Rightarrow> False | Some t \<Rightarrow> t \<noteq> [])"

definition fmt :: "string option \<Rightarrow> string" where
  "fmt s = (case s of None \<Rightarrow> ''None'' | Some t \<Rightarrow> t)"

fun join :: "string \<Rightarrow> string list \<Rightarrow> string" where
  "join sep [] = []"
| "join sep [x] = x"
| "join sep (x # y # ys) = x @ sep @ join sep (y # ys)"

text \<open>The part of \<^verbatim>\<open>fetch_data\<close> before the \<^verbatim>\<open>try\<close>: the query text and the bound
  parameters.\<close>

definition build_query :: "string \<Rightarrow> fetch_args \<Rightarrow> string \<times> (string \<times> cell) list" where
  "build_query table_name a =
     (let base_query = ''SELECT * FROM '' @ table_name;
          dated = truthy (start_date a) \<and> truthy (end_date a);
          conditions1 =
            (if dated then [fmt (date_column a) @ '' BETWEEN :start_date AND :end_date''] else []);
          params1 =
            (if dated
             then [(''start_date'', PyStr (the (start_date a))),
                   (''end_date'', PyStr (the (end_date a)))]
             else []);
          filtered = truthy (filter_column a) \<and> filter_value a \<noteq> None;
          conditions =
            (if filtered then conditions1 @ [fmt (filter_column a) @ '' = :filter_value'']
             else conditions1);
          params =
            (if filtered then params1 @ [(''filter_value'', the (filter_value a))] else params1);
          base_query2 =
            (if conditions \<noteq> [] then base_query @ '' WHERE '' @ join '' AND '' conditions
             else base_query);
          base_query3 =
            (if truthy (date_column a) then base_query2 @ '' ORDER BY '' @ fmt (date_column a)
             else base_query2)
      in (base_query3, params))"

text \<open>
  The result is the frame returned and the lines printed; an exception that is not an
  \<^verbatim>\<open>Exception\<close> leaves the function. \<^verbatim>\<open>pd.DataFrame()\<close> is the frame without columns.
\<close>

definition fetch_data :: "store \<Rightarrow> string \<Rightarrow> fetch_args \<Rightarrow> pyexc + dataframe \<times> string list" where
  "fetch_data read_sql table_name a =
     (case build_query table_name a of (base_query, params) \<Rightarrow>
        (case read_sql base_query params of
           Inr df \<Rightarrow> Inr (df, [])
         | Inl e \<Rightarrow>
             if is_Exception e then Inr ([], [''Database error: '' @ exc_str e])
             else Inl e))"

text \<open>The station kinds and their tables, as the dashboard lists them.\<close>

definition data_sources :: "(string \<times> string) list" where
  "data_sources =
    [(''River'', ''river_data''), (''Dam'', ''dam_data''), (''EPAN'', ''epan_data''),
     (''AWS'', ''aws_data''), (''ARS'', ''ars_data''), (''Gate'', ''gate_data'')]"

section \<open>app.py: the row highlighter\<close>

text \<open>
  A row handed to \<^verbatim>\<open>highlight_alerts\<close> is a series: labels and cells in order.
  \<^verbatim>\<open>row[col]\<close> is the cell when the label occurs once; when it occurs several times it
  is a series again, whose truth value is ambiguous (\<^verbatim>\<open>ValueError\<close>) and which
  \<^verbatim>\<open>float\<close> refuses (\<^verbatim>\<open>TypeError\<close>).
\<close>

type_synonym series = "(string \<times> cell) list"

datatype looked = Absent | Scalar cell | Multi

definition series_get :: "series \<Rightarrow> string \<Rightarrow> looked" where
  "series_get row col =
     (case filter (\<lambda>kv. fst kv = col) row of
        [] \<Rightarrow> Absent
      | [kv] \<Rightarrow> Scalar (snd kv)
      | _ \<Rightarrow> Multi)"

text \<open>The state of one call: the styles and the flag.\<close>

type_synonym hl_state = "string list \<times> bool"

definition raise_alert :: "series \<Rightarrow> hl_state" where
  "raise_alert row = (replicate (length row) ''background-color: #ffcccc'', True)"

text \<open>
  The guarded comparison that the battery, rainfall, wind and temperature checks share:
  \<^verbatim>\<open>if col in row and pd.notnull(row[col])\<close>, then inside \<^verbatim>\<open>try\<close> the comparison of
  \<^verbatim>\<open>float(row[col])\<close> with the threshold, and \<^verbatim>\<open>except: pass\<close>.
\<close>

definition threshold_check ::
  "(string \<Rightarrow> pyfloat option) \<Rightarrow> series \<Rightarrow> string \<Rightarrow> (pyfloat \<Rightarrow> bool) \<Rightarrow> hl_state
     \<Rightarrow> pyerr + hl_state" where
  "threshold_check sf row col exceeds st =
     (case series_get row col of
        Absent \<Rightarrow> Inr st
      | Multi \<Rightarrow> Inl ValueError
      | Scalar v \<Rightarrow>
          if notnull v
          then (case py_float sf v of
                  Inl e \<Rightarrow> Inr st
                | Inr x \<Rightarrow> Inr (if exceeds x then raise_alert row else st))
          else Inr st)"

text \<open>The pattern \<^verbatim>\<open>^g\d+$\<close> under \<^verbatim>\<open>re.match\<close>, on ASCII labels: the letter, one or more
  digits, then the end of the label or its final newline.\<close>

definition is_digit :: "char \<Rightarrow> bool" where
  "is_digit c = (c \<in> set ''0123456789'')"

definition is_gate_col :: "string \<Rightarrow> bool" where
  "is_gate_col col =
     (case col of
        [] \<Rightarrow> False
      | c # rest \<Rightarrow>
          c = CHR ''g'' \<and> takeWhile is_digit rest \<noteq> []
          \<and> (dropWhile is_digit rest = [] \<or> dropWhile is_digit rest = [CHR 0x0A]))"

text \<open>The loop over the gate columns, with its \<^verbatim>\<open>break\<close> and \<^verbatim>\<open>continue\<close>.\<close>

fun gate_loop ::
  "(string \<Rightarrow> pyfloat option) \<Rightarrow> series \<Rightarrow> string list \<Rightarrow> hl_state \<Rightarrow> pyerr + hl_state" where
  "gate_loop sf row [] st = Inr st"
| "gate_loop sf row (col # cols) st =
     (case series_get row col of
        Absent \<Rightarrow> gate_loop sf row cols st
      | Multi \<Rightarrow> Inl ValueError
      | Scalar v \<Rightarrow>
          if notnull v
          then (case py_float sf v of
                  Inl e \<Rightarrow> gate_loop sf row cols st
                | Inr x \<Rightarrow>
                    if fl_gt x 0 then Inr (raise_alert row) else gate_loop sf row cols st)
          else gate_loop sf row cols st)"

text \<open>The EPAN branch has no null test: \<^verbatim>\<open>float\<close> raises on what it cannot convert.\<close>

definition epan_check :: "(string \<Rightarrow> pyfloat option) \<Rightarrow> series \<Rightarrow> hl_state \<Rightarrow> hl_state" where
  "epan_check sf row st =
     (case series_get row ''epan_water_depth'' of
        Scalar v \<Rightarrow>
          (case py_float sf v of
             Inl e \<Rightarrow> st
           | Inr x \<Rightarrow> if fl_lt x 15 then raise_alert row else st)
      | _ \<Rightarrow> st)"

definition and_then :: "pyerr + 'a \<Rightarrow> ('a \<Rightarrow> pyerr + 'b) \<Rightarrow> pyerr + 'b" where
  "and_then r f = (case r of Inl e \<Rightarrow> Inl e | Inr x \<Rightarrow> f x)"

text \<open>
  \<open>station_name\<close> and \<open>columns\<close> (\<^verbatim>\<open>daily_df.columns\<close>) are the variables of the enclosing
  loop, \<open>alert_rows\<close> the list the closure appends to. The result is the styles returned
  and the list afterwards.
\<close>

definition highlight_alerts ::
  "(string \<Rightarrow> pyfloat option) \<Rightarrow> string \<Rightarrow> string list \<Rightarrow> series \<Rightarrow> series list
     \<Rightarrow> pyerr + string list \<times> series list" where
  "highlight_alerts sf station_name columns row alert_rows =
     and_then
       (threshold_check sf row ''batt_volt'' (\<lambda>x. fl_lt x 10.5)
          (replicate (length row) [], False))
       (\<lambda>st1.
          and_then
            (if station_name = ''Gate''
             then gate_loop sf row (filter is_gate_col columns) st1
             else if station_name = ''EPAN'' \<and> series_get row ''epan_water_depth'' \<noteq> Absent
             then Inr (epan_check sf row st1)
             else if station_name = ''AWS''
             then and_then (threshold_check sf row ''rainfall'' (\<lambda>x. fl_gt x 50) st1)
                    (\<lambda>st2. and_then (threshold_check sf row ''wind_speed'' (\<lambda>x. fl_gt x 30) st2)
                       (\<lambda>st3. threshold_check sf row ''temperature'' (\<lambda>x. fl_gt x 40) st3))
             else Inr st1)
            (\<lambda>st. Inr (fst st, if snd st then alert_rows @ [row] else alert_rows)))"

section \<open>The properties in closed form\<close>

text \<open>
  A cell lies outside the closed range of a rule when it is a number strictly below the
  minimum or strictly above the maximum; a missing value never does.
\<close>

definition out_of_range :: "int \<Rightarrow> int \<Rightarrow> cell \<Rightarrow> bool" where
  "out_of_range min_val max_val c =
     (case c of
        PyNum x \<Rightarrow> fl_lt x (of_int min_val) \<or> fl_gt x (of_int max_val)
      | _ \<Rightarrow> False)"

text \<open>The cells of a numeric column of a table: numbers and missing values.\<close>

definition numeric :: "cell \<Rightarrow> bool" where
  "numeric c = (case c of PyNone \<Rightarrow> True | PyNum x \<Rightarrow> True | _ \<Rightarrow> False)"

text \<open>
  A threshold predicate fires on a row when its column is present once, the value is not
  null, \<^verbatim>\<open>float\<close> converts it, and the converted value passes the comparison.
\<close>

definition fires ::
  "(string \<Rightarrow> pyfloat option) \<Rightarrow> series \<Rightarrow> string \<Rightarrow> (pyfloat \<Rightarrow> bool) \<Rightarrow> bool" where
  "fires sf row col exceeds =
     (case series_get row col of
        Scalar v \<Rightarrow>
          notnull v \<and> (case py_float sf v of Inl e \<Rightarrow> False | Inr x \<Rightarrow> exceeds x)
      | _ \<Rightarrow> False)"

text \<open>The predicates of a station kind, the battery check apart.\<close>

definition station_alert ::
  "(string \<Rightarrow> pyfloat option) \<Rightarrow> string \<Rightarrow> string list \<Rightarrow> series \<Rightarrow> bool" where
  "station_alert sf station_name columns row =
     (if station_name = ''Gate''
      then list_ex (\<lambda>col. is_gate_col col \<and> fires sf row col (\<lambda>x. fl_gt x 0)) columns
      else if station_name = ''EPAN''
      then fires sf row ''epan_water_depth'' (\<lambda>x. fl_lt x 15)
      else if station_name = ''AWS''
      then fires sf row ''rainfall'' (\<lambda>x. fl_gt x 50)
           \<or> fires sf row ''wind_speed'' (\<lambda>x. fl_gt x 30)
           \<or> fires sf row ''temperature'' (\<lambda>x. fl_gt x 40)
      else False)"

text \<open>The two outcomes of \<open>highlight_alerts\<close> on a row.\<close>

definition flagged :: "series \<Rightarrow> series list \<Rightarrow> pyerr + string list \<times> series list" where
  "flagged row alert_rows =
     Inr (replicate (length row) ''background-color: #ffcccc'', alert_rows @ [row])"

definition unflagged :: "series \<Rightarrow> series list \<Rightarrow> pyerr + string list \<times> series list" where
  "unflagged row alert_rows = Inr (replicate (length row) [], alert_rows)"

text \<open>Two stores for the examples: one answers with the query text it was sent, one is down.\<close>

definition echo_store :: store where
  "echo_store q ps = Inr [(''query'', [PyStr q])]"

definition down_store :: store where
  "down_store q ps = Inl (OperationalError ''connection refused'')"

text \<open>A string converter for the examples: it knows no string.\<close>

definition no_parse :: "string \<Rightarrow> pyfloat option" where
  "no_parse s = None"

text \<open>The rows of the examples: a gate row with four gate columns, a weather row.\<close>

definition gate_columns :: "string list" where
  "gate_columns = [''data_date'', ''batt_volt'', ''g1'', ''g2'', ''g3'', ''g4'']"

definition gate_row :: "rat \<Rightarrow> series" where
  "gate_row g3 =
     [(''data_date'', PyStr ''2025-05-01''), (''batt_volt'', PyNum (Fin 12.6)),
      (''g1'', PyNum (Fin 0)), (''g2'', PyNum (Fin 0)), (''g3'', PyNum (Fin g3)),
      (''g4'', PyNum (Fin 0))]"

definition aws_row :: "rat \<Rightarrow> series" where
  "aws_row rainfall =
     [(''data_date'', PyStr ''2025-05-01''), (''rainfall'', PyNum (Fin rainfall)),
      (''wind_speed'', PyNum (Fin 10)), (''temperature'', PyNum (Fin 20))]"

section \<open>Lemmas about the constraint check\<close>

lemma compare_all_lt:
  "list_all numeric cells \<Longrightarrow>
   compare_all (\<lambda>c. cell_lt c n) cells =
     Inr (map (\<lambda>c. case c of PyNum x \<Rightarrow> fl_lt x (of_int n) | _ \<Rightarrow> False) cells)"
  by (induction cells) (auto simp: numeric_def split: cell.splits)

lemma compare_all_gt:
  "list_all numeric cells \<Longrightarrow>
   compare_all (\<lambda>c. cell_gt c n) cells =
     Inr (map (\<lambda>c. case c of PyNum x \<Rightarrow> fl_gt x (of_int n) | _ \<Rightarrow> False) cells)"
  by (induction cells) (auto simp: numeric_def split: cell.splits)

lemma mask_filter:
  "filter id (map2 (\<or>) (map f cells) (map g cells)) =
     map (\<lambda>_. True) (filter (\<lambda>c. f c \<or> g c) cells)"
  by (induction cells) auto

lemma out_of_range_alt:
  "out_of_range lo hi =
     (\<lambda>c. (case c of PyNum x \<Rightarrow> fl_lt x (of_int lo) | _ \<Rightarrow> False)
          \<or> (case c of PyNum x \<Rightarrow> fl_gt x (of_int hi) | _ \<Rightarrow> False))"
  by (auto simp: out_of_range_def fun_eq_iff split: cell.splits)

lemma check_rule_numeric:
  assumes "map_of df column = Some cells" and "list_all numeric cells"
  shows "check_rule df table_name alerts (column, min_val, max_val) =
     Inr (if filter (out_of_range min_val max_val) cells \<noteq> []
          then alerts @ [alert_msg table_name column min_val max_val
                           (length (filter (out_of_range min_val max_val) cells))]
          else alerts)"
  using assms
  by (simp add: check_rule_def compare_all_lt compare_all_gt mask_filter out_of_range_alt Let_def)

lemma registry_rule:
  assumes "map_of CONSTRAINTS table_name = Some rules"
    and "(column, min_val, max_val) \<in> set rules"
  shows "rules = [(column, min_val, max_val)] \<and> min_val \<le> max_val"
  using assms by (auto simp: CONSTRAINTS_def split: if_splits)

lemma check_constraints_single:
  "map_of CONSTRAINTS table_name = Some [r] \<Longrightarrow>
   check_constraints df table_name = check_rule df table_name [] r"
  by (simp add: check_constraints_def split: sum.splits)

lemma check_rule_absent:
  "column \<notin> set (map fst df) \<Longrightarrow>
   check_rule df table_name alerts (column, min_val, max_val) = Inr alerts"
proof -
  assume "column \<notin> set (map fst df)"
  then have "map_of df column = None" by (simp add: map_of_eq_None_iff)
  then show ?thesis by (simp add: check_rule_def)
qed

lemma run_rules_skip:
  "column \<notin> set (map fst df) \<Longrightarrow>
   run_rules df table_name (before @ (column, min_val, max_val) # after) alerts =
     run_rules df table_name (before @ after) alerts"
  by (induction before arbitrary: alerts) (auto simp: check_rule_absent split: sum.splits)

lemma run_rules_absent:
  "\<forall>r \<in> set rules. fst r \<notin> set (map fst df) \<Longrightarrow>
   run_rules df table_name rules alerts = Inr alerts"
proof (induction rules)
  case Nil
  then show ?case by simp
next
  case (Cons r rules)
  obtain c lo hi where r: "r = (c, lo, hi)" by (cases r) auto
  with Cons.prems have "c \<notin> set (map fst df)" by simp
  then have "check_rule df table_name alerts r = Inr alerts"
    unfolding r by (rule check_rule_absent)
  with Cons show ?case by simp
qed

section \<open>The constraint check\<close>

text \<open>
  C1. For every rule (column, (min, max)) of the registry and every frame whose column of
  that name holds numbers (or missing values), \<open>check_constraints\<close> returns exactly one
  message when some row lies strictly below min or strictly above max, and none
  otherwise. The message names the table, the column, the range and the number of rows
  outside the range. The values min - 1 and max + 1 lie outside, min and max themselves
  do not: the bounds are inclusive.
\<close>

theorem check_constraints_summary:
  assumes "map_of CONSTRAINTS table_name = Some rules"
    and "(column, min_val, max_val) \<in> set rules"
    and "distinct (map fst df)"
    and "map_of df column = Some cells"
    and "list_all numeric cells"
  shows "check_constraints df table_name =
           Inr (if \<exists>c \<in> set cells. out_of_range min_val max_val c
                then [''Constraint violation in '' @ table_name @ '' for column ''
                      @ [CHR 0x27] @ column @ [CHR 0x27] @ '': Values outside [''
                      @ str_int min_val @ '', '' @ str_int max_val @ '']. Found ''
                      @ str_nat (length (filter (out_of_range min_val max_val) cells))
                      @ '' invalid entries.'']
                else [])
         \<and> out_of_range min_val max_val (PyNum (Fin (of_int (min_val - 1))))
         \<and> out_of_range min_val max_val (PyNum (Fin (of_int (max_val + 1))))
         \<and> \<not> out_of_range min_val max_val (PyNum (Fin (of_int min_val)))
         \<and> \<not> out_of_range min_val max_val (PyNum (Fin (of_int max_val)))"
proof -
  from assms(1,2) have r: "rules = [(column, min_val, max_val)]" and le: "min_val \<le> max_val"
    using registry_rule by blast+
  have "check_constraints df table_name = check_rule df table_name [] (column, min_val, max_val)"
    using assms(1) r by (simp add: check_constraints_single)
  also have "\<dots> = Inr (if filter (out_of_range min_val max_val) cells \<noteq> []
          then [alert_msg table_name column min_val max_val
                           (length (filter (out_of_range min_val max_val) cells))]
          else [])"
    using check_rule_numeric [OF assms(4,5)] by simp
  finally have main: "check_constraints df table_name =
      Inr (if filter (out_of_range min_val max_val) cells \<noteq> []
          then [alert_msg table_name column min_val max_val
                           (length (filter (out_of_range min_val max_val) cells))]
          else [])" .
  have first: "check_constraints df table_name =
           Inr (if \<exists>c \<in> set cells. out_of_range min_val max_val c
                then [''Constraint violation in '' @ table_name @ '' for column ''
                      @ [CHR 0x27] @ column @ [CHR 0x27] @ '': Values outside [''
                      @ str_int min_val @ '', '' @ str_int max_val @ '']. Found ''
                      @ str_nat (length (filter (out_of_range min_val max_val) cells))
                      @ '' invalid entries.'']
                else [])"
    unfolding main by (simp add: alert_msg_def filter_empty_conv)
  have bounds: "out_of_range min_val max_val (PyNum (Fin (of_int (min_val - 1))))"
      "out_of_range min_val max_val (PyNum (Fin (of_int (max_val + 1))))"
      "\<not> out_of_range min_val max_val (PyNum (Fin (of_int min_val)))"
      "\<not> out_of_range min_val max_val (PyNum (Fin (of_int max_val)))"
    using le by (simp_all add: out_of_range_def)
  from first bounds show ?thesis by blast
qed

theorem check_constraints_summary_witness:
  "check_constraints
     [(''data_date'', [PyStr ''2025-05-01'', PyStr ''2025-05-01'', PyStr ''2025-05-02'',
                       PyStr ''2025-05-02'', PyStr ''2025-05-03'']),
      (''water_level'', [PyNum (Fin 999), PyNum (Fin 1000), PyNum (Fin 2000),
                         PyNum (Fin 2001), PyNum NaN])]
     ''river_data''
   = Inr [''Constraint violation in river_data for column '' @ [CHR 0x27] @ ''water_level''
          @ [CHR 0x27] @ '': Values outside [1000, 2000]. Found 2 invalid entries.'']
   \<and> check_constraints [(''water_level'', [PyNum (Fin 1000), PyNum (Fin 2000)])] ''river_data''
     = Inr []"
proof -
  have a: "map_of CONSTRAINTS ''river_data'' = Some [(''water_level'', 1000, 2000)]"
    by (simp add: CONSTRAINTS_def)
  have b: "(''water_level'', 1000, 2000) \<in> set [(''water_level'', 1000::int, 2000::int)]"
    by simp
  have s: "str_int 1000 = ''1000''" "str_int 2000 = ''2000''" "str_nat (Suc (Suc 0)) = ''2''"
    by (simp_all add: str_int_def str_nat.simps digit_chr_def)
  have one: "check_constraints
     [(''data_date'', [PyStr ''2025-05-01'', PyStr ''2025-05-01'', PyStr ''2025-05-02'',
                       PyStr ''2025-05-02'', PyStr ''2025-05-03'']),
      (''water_level'', [PyNum (Fin 999), PyNum (Fin 1000), PyNum (Fin 2000),
                         PyNum (Fin 2001), PyNum NaN])]
     ''river_data''
   = Inr [''Constraint violation in river_data for column '' @ [CHR 0x27] @ ''water_level''
          @ [CHR 0x27] @ '': Values outside [1000, 2000]. Found 2 invalid entries.'']"
    using check_constraints_summary [OF a b,
        of "[(''data_date'', [PyStr ''2025-05-01'', PyStr ''2025-05-01'', PyStr ''2025-05-02'',
                       PyStr ''2025-05-02'', PyStr ''2025-05-03'']),
      (''water_level'', [PyNum (Fin 999), PyNum (Fin 1000), PyNum (Fin 2000),
                         PyNum (Fin 2001), PyNum NaN])]"
           "[PyNum (Fin 999), PyNum (Fin 1000), PyNum (Fin 2000), PyNum (Fin 2001), PyNum NaN]"]
    by (simp add: numeric_def out_of_range_def s)
  have two: "check_constraints [(''water_level'', [PyNum (Fin 1000), PyNum (Fin 2000)])]
      ''river_data'' = Inr []"
    using check_constraints_summary [OF a b,
        of "[(''water_level'', [PyNum (Fin 1000), PyNum (Fin 2000)])]"
           "[PyNum (Fin 1000), PyNum (Fin 2000)]"]
    by (simp add: numeric_def out_of_range_def)
  from one two show ?thesis by blast
qed

text \<open>
  C9. For every frame, \<open>check_constraints\<close> on a table name without registered rules
  returns the empty list and no error. A rule whose column is not among the columns of
  the frame is skipped: the loop over the rules runs as if the rule were not there, and
  when no rule of the table has its column in the frame the result is the empty list.
\<close>

theorem no_rules_or_absent_column:
  "(map_of CONSTRAINTS table_name = None \<longrightarrow> check_constraints df table_name = Inr [])
   \<and> (column \<notin> set (map fst df) \<longrightarrow>
        run_rules df table_name (before @ (column, min_val, max_val) # after) alerts =
          run_rules df table_name (before @ after) alerts)
   \<and> (map_of CONSTRAINTS table_name = Some rules
        \<and> (\<forall>r \<in> set rules. fst r \<notin> set (map fst df)) \<longrightarrow>
          check_constraints df table_name = Inr [])"
  by (simp add: check_constraints_def run_rules_skip run_rules_absent)

theorem no_rules_or_absent_column_witness:
  "check_constraints [(''water_level'', [PyNum (Fin 5), PyStr ''n/a''])] ''lake_data'' = Inr []
   \<and> check_constraints [(''flow'', [PyNum (Fin 5), PyStr ''n/a''])] ''river_data'' = Inr []"
proof -
  have "map_of CONSTRAINTS ''lake_data'' = None"
    by (simp add: CONSTRAINTS_def)
  then have one:
    "check_constraints [(''water_level'', [PyNum (Fin 5), PyStr ''n/a''])] ''lake_data'' = Inr []"
    using no_rules_or_absent_column
      [of "''lake_data''" "[(''water_level'', [PyNum (Fin 5), PyStr ''n/a''])]"]
    by blast
  have "map_of CONSTRAINTS ''river_data'' = Some [(''water_level'', 1000, 2000)]"
    by (simp add: CONSTRAINTS_def)
  then have two:
    "check_constraints [(''flow'', [PyNum (Fin 5), PyStr ''n/a''])] ''river_data'' = Inr []"
    using no_rules_or_absent_column
      [of "''river_data''" "[(''flow'', [PyNum (Fin 5), PyStr ''n/a''])]" _ _ _ _ _ _
          "[(''water_level'', 1000, 2000)]"]
    by simp
  from one two show ?thesis by blast
qed

section \<open>Lemmas about the row highlighter\<close>

lemma filter_key_distinct:
  "distinct (map fst row) \<Longrightarrow> length (filter (\<lambda>kv. fst kv = col) row) \<le> 1"
proof (induction row)
  case Nil
  then show ?case by simp
next
  case (Cons a row)
  show ?case
  proof (cases "fst a = col")
    case True
    with Cons.prems have "\<forall>kv \<in> set row. fst kv \<noteq> col"
      by (force simp: image_iff)
    then have "filter (\<lambda>kv. fst kv = col) row = []"
      by (simp add: filter_empty_conv)
    with True show ?thesis by simp
  next
    case False
    with Cons show ?thesis by simp
  qed
qed

lemma series_get_distinct:
  "distinct (map fst row) \<Longrightarrow> series_get row col \<noteq> Multi"
  using filter_key_distinct [of row col]
  by (auto simp: series_get_def split: list.splits)

lemma series_get_member:
  "series_get row col = Scalar v \<Longrightarrow> (col, v) \<in> set row"
proof -
  assume "series_get row col = Scalar v"
  then obtain kv where f: "filter (\<lambda>kv. fst kv = col) row = [kv]" and v: "snd kv = v"
    by (auto simp: series_get_def split: list.splits)
  from f have "kv \<in> set (filter (\<lambda>kv. fst kv = col) row)" by simp
  then have "kv \<in> set row" and "fst kv = col" by simp_all
  with v show ?thesis by (cases kv) simp
qed

lemma threshold_check_fires:
  "distinct (map fst row) \<Longrightarrow>
   threshold_check sf row col exceeds st =
     Inr (if fires sf row col exceeds then raise_alert row else st)"
  using series_get_distinct [of row col]
  by (auto simp: threshold_check_def fires_def split: looked.splits sum.splits)

lemma gate_loop_fires:
  "distinct (map fst row) \<Longrightarrow>
   gate_loop sf row cols st =
     Inr (if list_ex (\<lambda>col. fires sf row col (\<lambda>x. fl_gt x 0)) cols
          then raise_alert row else st)"
proof (induction cols)
  case Nil
  then show ?case by simp
next
  case (Cons col cols)
  then show ?case
    using series_get_distinct [of row col]
    by (auto simp: fires_def split: looked.splits sum.splits)
qed

lemma gate_loop_break:
  "fires sf row col (\<lambda>x. fl_gt x 0) \<Longrightarrow> gate_loop sf row (col # rest) st = Inr (raise_alert row)"
  by (cases "series_get row col") (auto simp: fires_def split: sum.splits)

lemma null_never_below:
  "\<not> notnull v \<Longrightarrow> py_float sf v = Inr x \<Longrightarrow> \<not> fl_lt x t"
  by (cases v; cases x) (auto elim: notnull.elims)

lemma epan_check_fires:
  "epan_check sf row st =
     (if fires sf row ''epan_water_depth'' (\<lambda>x. fl_lt x 15) then raise_alert row else st)"
  by (auto simp: epan_check_def fires_def dest: null_never_below split: looked.splits sum.splits)

lemma list_ex_filter: "list_ex P (filter Q xs) = list_ex (\<lambda>x. Q x \<and> P x) xs"
  by (induction xs) auto

lemma fires_absent: "series_get row col = Absent \<Longrightarrow> \<not> fires sf row col p"
  by (simp add: fires_def)

lemma fires_intro:
  "series_get row col = Scalar v \<Longrightarrow> notnull v \<Longrightarrow> py_float sf v = Inr x \<Longrightarrow> p x \<Longrightarrow>
   fires sf row col p"
  by (simp add: fires_def)

lemma not_fires_unparseable:
  "series_get row col = Scalar v \<Longrightarrow> \<not> notnull v \<or> py_float sf v = Inl e \<Longrightarrow>
   \<not> fires sf row col p"
  by (auto simp: fires_def)

lemma highlight_alerts_closed:
  assumes "distinct (map fst row)"
  shows "highlight_alerts sf station_name columns row alert_rows =
           (if fires sf row ''batt_volt'' (\<lambda>x. fl_lt x 10.5)
               \<or> station_alert sf station_name columns row
            then flagged row alert_rows else unflagged row alert_rows)"
  using assms
  by (auto simp: highlight_alerts_def and_then_def threshold_check_fires gate_loop_fires
      epan_check_fires list_ex_filter station_alert_def flagged_def unflagged_def raise_alert_def
      fires_absent)

lemma gate_name:
  "ds \<noteq> [] \<Longrightarrow> \<forall>d \<in> set ds. is_digit d \<Longrightarrow> is_gate_col (CHR ''g'' # ds)"
  by (simp add: is_gate_col_def takeWhile_eq_all_conv [THEN iffD2]
      dropWhile_eq_Nil_conv [THEN iffD2])

lemma distinct_gate_row: "distinct (map fst (gate_row g3))"
  by (simp add: gate_row_def)

lemma distinct_aws_row: "distinct (map fst (aws_row r))"
  by (simp add: aws_row_def)

lemma gate_row_battery:
  "fires sf (gate_row g3) ''batt_volt'' (\<lambda>x. fl_lt x t) = (12.6 < t)"
  by (simp add: fires_def gate_row_def series_get_def)

lemma gate_row_alert:
  "station_alert sf ''Gate'' gate_columns (gate_row g3) = (0 < g3)"
  by (simp add: station_alert_def gate_columns_def gate_row_def fires_def series_get_def
      is_gate_col_def is_digit_def)

lemma aws_row_fires:
  "\<not> fires sf (aws_row r) ''batt_volt'' p"
  "fires sf (aws_row r) ''rainfall'' (\<lambda>x. fl_gt x t) = (t < r)"
  "fires sf (aws_row r) ''wind_speed'' (\<lambda>x. fl_gt x t) = (t < 10)"
  "fires sf (aws_row r) ''temperature'' (\<lambda>x. fl_gt x t) = (t < 20)"
  by (simp_all add: fires_def aws_row_def series_get_def)

section \<open>The row highlighter\<close>

text \<open>
  C5. For every station name and every row (its labels distinct, as those of a table are):
  when the column \<open>batt_volt\<close> is present, not null, \<^verbatim>\<open>float\<close> converts it and the value
  is strictly below 10.5, \<open>highlight_alerts\<close> highlights the row and appends it to the
  alert rows. A row with \<open>batt_volt = 10.4\<close> is flagged whatever the station. With
  \<open>batt_volt = 10.5\<close> the battery check does not fire: the row is flagged exactly when a
  predicate of the station fires, and a row holding nothing but this battery value is not
  flagged.
\<close>

theorem battery_alert:
  "(distinct (map fst row) \<and> series_get row ''batt_volt'' = Scalar v \<and> notnull v
      \<and> py_float sf v = Inr x \<and> fl_lt x 10.5 \<longrightarrow>
      highlight_alerts sf station_name columns row alert_rows = flagged row alert_rows)
   \<and> highlight_alerts sf station_name columns [(''batt_volt'', PyNum (Fin 10.4))] alert_rows
       = flagged [(''batt_volt'', PyNum (Fin 10.4))] alert_rows
   \<and> (distinct (map fst row) \<and> series_get row ''batt_volt'' = Scalar (PyNum (Fin 10.5)) \<longrightarrow>
        highlight_alerts sf station_name columns row alert_rows =
          (if station_alert sf station_name columns row
           then flagged row alert_rows else unflagged row alert_rows))
   \<and> highlight_alerts sf station_name columns [(''batt_volt'', PyNum (Fin 10.5))] alert_rows
       = unflagged [(''batt_volt'', PyNum (Fin 10.5))] alert_rows"
proof -
  have one: "distinct (map fst row) \<and> series_get row ''batt_volt'' = Scalar v \<and> notnull v
      \<and> py_float sf v = Inr x \<and> fl_lt x 10.5 \<longrightarrow>
      highlight_alerts sf station_name columns row alert_rows = flagged row alert_rows"
    by (simp add: highlight_alerts_closed fires_def)
  have two: "highlight_alerts sf station_name columns [(''batt_volt'', PyNum (Fin 10.4))]
      alert_rows = flagged [(''batt_volt'', PyNum (Fin 10.4))] alert_rows"
    by (simp add: highlight_alerts_closed fires_def series_get_def)
  have three: "distinct (map fst row)
      \<and> series_get row ''batt_volt'' = Scalar (PyNum (Fin 10.5)) \<longrightarrow>
        highlight_alerts sf station_name columns row alert_rows =
          (if station_alert sf station_name columns row
           then flagged row alert_rows else unflagged row alert_rows)"
    by (simp add: highlight_alerts_closed fires_def)
  have four: "highlight_alerts sf station_name columns [(''batt_volt'', PyNum (Fin 10.5))]
      alert_rows = unflagged [(''batt_volt'', PyNum (Fin 10.5))] alert_rows"
    by (simp add: highlight_alerts_closed fires_def series_get_def station_alert_def
        list_ex_iff is_gate_col_def)
  from one two three four show ?thesis by blast
qed

theorem battery_alert_witness:
  "highlight_alerts no_parse ''River'' [''data_date'', ''water_level'', ''batt_volt'']
     [(''data_date'', PyStr ''2025-05-01''), (''water_level'', PyNum (Fin 1500)),
      (''batt_volt'', PyNum (Fin 9.8))] []
   = Inr ([''background-color: #ffcccc'', ''background-color: #ffcccc'',
           ''background-color: #ffcccc''],
          [[(''data_date'', PyStr ''2025-05-01''), (''water_level'', PyNum (Fin 1500)),
            (''batt_volt'', PyNum (Fin 9.8))]])"
  using battery_alert [where row = "[(''data_date'', PyStr ''2025-05-01''),
      (''water_level'', PyNum (Fin 1500)), (''batt_volt'', PyNum (Fin 9.8))]"
      and v = "PyNum (Fin 9.8)" and x = "Fin 9.8" and sf = no_parse
      and station_name = "''River''"
      and columns = "[''data_date'', ''water_level'', ''batt_volt'']" and alert_rows = "[]"]
  by (simp add: series_get_def flagged_def)

text \<open>
  C6. On a Gate station, for every row with distinct labels: when a column of the frame
  named g followed by one or more digits is present in the row, not null, convertible and
  strictly above 0, the row is flagged. The loop stops at the first gate column that
  fires: its result does not depend on the columns after it. When neither the battery check
  nor any gate column fires the row is not flagged. The row with \<open>g3 = 0.01\<close> and the other
  gate columns 0 is flagged; with every gate column 0 it is not.
\<close>

theorem gate_alert:
  "(distinct (map fst row) \<and> col \<in> set columns \<and> col = CHR ''g'' # ds \<and> ds \<noteq> []
      \<and> (\<forall>d \<in> set ds. is_digit d) \<and> series_get row col = Scalar v \<and> notnull v
      \<and> py_float sf v = Inr x \<and> fl_gt x 0 \<longrightarrow>
      highlight_alerts sf ''Gate'' columns row alert_rows = flagged row alert_rows)
   \<and> (fires sf row col (\<lambda>x. fl_gt x 0) \<longrightarrow>
        gate_loop sf row (col # rest) st = Inr (raise_alert row))
   \<and> (distinct (map fst row) \<and> \<not> fires sf row ''batt_volt'' (\<lambda>x. fl_lt x 10.5)
        \<and> (\<forall>c \<in> set columns. is_gate_col c \<longrightarrow> \<not> fires sf row c (\<lambda>x. fl_gt x 0)) \<longrightarrow>
        highlight_alerts sf ''Gate'' columns row alert_rows = unflagged row alert_rows)
   \<and> highlight_alerts sf ''Gate'' gate_columns (gate_row 0.01) alert_rows
       = flagged (gate_row 0.01) alert_rows
   \<and> highlight_alerts sf ''Gate'' gate_columns (gate_row 0.00) alert_rows
       = unflagged (gate_row 0.00) alert_rows"
proof -
  have one: "distinct (map fst row) \<and> col \<in> set columns \<and> col = CHR ''g'' # ds \<and> ds \<noteq> []
      \<and> (\<forall>d \<in> set ds. is_digit d) \<and> series_get row col = Scalar v \<and> notnull v
      \<and> py_float sf v = Inr x \<and> fl_gt x 0 \<longrightarrow>
      highlight_alerts sf ''Gate'' columns row alert_rows = flagged row alert_rows"
  proof (intro impI, elim conjE)
    assume d: "distinct (map fst row)" and c: "col \<in> set columns" and n: "col = CHR ''g'' # ds"
      and ds: "ds \<noteq> []" "\<forall>d \<in> set ds. is_digit d"
      and v: "series_get row col = Scalar v" "notnull v" "py_float sf v = Inr x" "fl_gt x 0"
    from n ds have "is_gate_col col" by (simp add: gate_name)
    moreover from v have "fires sf row col (\<lambda>x. fl_gt x 0)" by (rule fires_intro)
    ultimately have "station_alert sf ''Gate'' columns row"
      using c by (auto simp: station_alert_def list_ex_iff)
    with d show "highlight_alerts sf ''Gate'' columns row alert_rows = flagged row alert_rows"
      by (simp add: highlight_alerts_closed)
  qed
  have two: "fires sf row col (\<lambda>x. fl_gt x 0) \<longrightarrow>
        gate_loop sf row (col # rest) st = Inr (raise_alert row)"
    by (rule impI) (rule gate_loop_break)
  have three: "distinct (map fst row) \<and> \<not> fires sf row ''batt_volt'' (\<lambda>x. fl_lt x 10.5)
        \<and> (\<forall>c \<in> set columns. is_gate_col c \<longrightarrow> \<not> fires sf row c (\<lambda>x. fl_gt x 0)) \<longrightarrow>
        highlight_alerts sf ''Gate'' columns row alert_rows = unflagged row alert_rows"
    by (auto simp: highlight_alerts_closed station_alert_def list_ex_iff)
  have four: "highlight_alerts sf ''Gate'' gate_columns (gate_row 0.01) alert_rows
       = flagged (gate_row 0.01) alert_rows"
    by (simp add: highlight_alerts_closed distinct_gate_row gate_row_battery gate_row_alert)
  have five: "highlight_alerts sf ''Gate'' gate_columns (gate_row 0.00) alert_rows
       = unflagged (gate_row 0.00) alert_rows"
    by (simp add: highlight_alerts_closed distinct_gate_row gate_row_battery gate_row_alert)
  from one two three four five show ?thesis by blast
qed

theorem gate_alert_witness:
  "highlight_alerts no_parse ''Gate'' [''data_date'', ''g1'', ''g12'']
     [(''data_date'', PyStr ''2025-05-01''), (''g1'', PyStr ''closed''),
      (''g12'', PyNum (Fin 2))] []
   = Inr ([''background-color: #ffcccc'', ''background-color: #ffcccc'',
           ''background-color: #ffcccc''],
          [[(''data_date'', PyStr ''2025-05-01''), (''g1'', PyStr ''closed''),
            (''g12'', PyNum (Fin 2))]])"
  using gate_alert [where row = "[(''data_date'', PyStr ''2025-05-01''),
      (''g1'', PyStr ''closed''), (''g12'', PyNum (Fin 2))]"
      and col = "''g12''" and ds = "''12''" and v = "PyNum (Fin 2)" and x = "Fin 2"
      and sf = no_parse and columns = "[''data_date'', ''g1'', ''g12'']" and alert_rows = "[]"]
  by (simp add: series_get_def flagged_def is_digit_def)

text \<open>
  C7. On an AWS station, for every row with distinct labels, the row is flagged exactly
  when the battery check fires or rainfall is above 50 or wind speed above 30 or
  temperature above 40, each of the three read from its own column and any one of them
  enough. The row with rainfall 51, wind speed 10 and temperature 20 is flagged; with
  rainfall 50 it is not.
\<close>

theorem aws_alert:
  "(distinct (map fst row) \<longrightarrow>
      highlight_alerts sf ''AWS'' columns row alert_rows =
        (if fires sf row ''batt_volt'' (\<lambda>x. fl_lt x 10.5)
            \<or> fires sf row ''rainfall'' (\<lambda>x. fl_gt x 50)
            \<or> fires sf row ''wind_speed'' (\<lambda>x. fl_gt x 30)
            \<or> fires sf row ''temperature'' (\<lambda>x. fl_gt x 40)
         then flagged row alert_rows else unflagged row alert_rows))
   \<and> highlight_alerts sf ''AWS'' columns (aws_row 51) alert_rows = flagged (aws_row 51) alert_rows
   \<and> highlight_alerts sf ''AWS'' columns (aws_row 50) alert_rows
       = unflagged (aws_row 50) alert_rows"
proof -
  have one: "distinct (map fst row) \<longrightarrow>
      highlight_alerts sf ''AWS'' columns row alert_rows =
        (if fires sf row ''batt_volt'' (\<lambda>x. fl_lt x 10.5)
            \<or> fires sf row ''rainfall'' (\<lambda>x. fl_gt x 50)
            \<or> fires sf row ''wind_speed'' (\<lambda>x. fl_gt x 30)
            \<or> fires sf row ''temperature'' (\<lambda>x. fl_gt x 40)
         then flagged row alert_rows else unflagged row alert_rows)"
    by (simp add: highlight_alerts_closed station_alert_def)
  have two: "highlight_alerts sf ''AWS'' columns (aws_row 51) alert_rows
      = flagged (aws_row 51) alert_rows"
    by (simp add: highlight_alerts_closed distinct_aws_row station_alert_def aws_row_fires)
  have three: "highlight_alerts sf ''AWS'' columns (aws_row 50) alert_rows
      = unflagged (aws_row 50) alert_rows"
    by (simp add: highlight_alerts_closed distinct_aws_row station_alert_def aws_row_fires)
  from one two three show ?thesis by blast
qed

theorem aws_alert_witness:
  "highlight_alerts no_parse ''AWS'' [''wind_speed'', ''temperature'']
     [(''wind_speed'', PyNum (Fin 31)), (''temperature'', PyStr ''n/a'')] []
   = Inr ([''background-color: #ffcccc'', ''background-color: #ffcccc''],
          [[(''wind_speed'', PyNum (Fin 31)), (''temperature'', PyStr ''n/a'')]])"
  using aws_alert [where row = "[(''wind_speed'', PyNum (Fin 31)),
      (''temperature'', PyStr ''n/a'')]" and sf = no_parse
      and columns = "[''wind_speed'', ''temperature'']" and alert_rows = "[]"]
  by (simp add: fires_def series_get_def flagged_def no_parse_def)

text \<open>
  C8. For every station name and every row with distinct labels \<open>highlight_alerts\<close> returns
  a result: no error leaves it. A check whose column holds a null value or one that
  \<^verbatim>\<open>float\<close> cannot convert leaves the state as it was: the threshold checks and the
  EPAN check return it unchanged and the gate loop goes on to the next column. A row in
  which every cell is null or not convertible is never flagged.
\<close>

theorem highlight_alerts_total:
  "(distinct (map fst row) \<longrightarrow>
      (\<exists>styles rows. highlight_alerts sf station_name columns row alert_rows = Inr (styles, rows)))
   \<and> (series_get row col = Scalar v \<and> (\<not> notnull v \<or> py_float sf v = Inl e) \<longrightarrow>
        threshold_check sf row col exceeds st = Inr st
        \<and> gate_loop sf row (col # cols) st = gate_loop sf row cols st)
   \<and> (series_get row ''epan_water_depth'' = Scalar v \<and> (\<not> notnull v \<or> py_float sf v = Inl e)
        \<longrightarrow> epan_check sf row st = st)
   \<and> (distinct (map fst row)
        \<and> (\<forall>kv \<in> set row. \<not> notnull (snd kv) \<or> (\<exists>e. py_float sf (snd kv) = Inl e)) \<longrightarrow>
        highlight_alerts sf station_name columns row alert_rows = unflagged row alert_rows)"
proof -
  have one: "distinct (map fst row) \<longrightarrow>
      (\<exists>styles rows. highlight_alerts sf station_name columns row alert_rows = Inr (styles, rows))"
    by (simp add: highlight_alerts_closed flagged_def unflagged_def)
  have two: "series_get row col = Scalar v \<and> (\<not> notnull v \<or> py_float sf v = Inl e) \<longrightarrow>
        threshold_check sf row col exceeds st = Inr st
        \<and> gate_loop sf row (col # cols) st = gate_loop sf row cols st"
    by (auto simp: threshold_check_def)
  have three: "series_get row ''epan_water_depth'' = Scalar v
        \<and> (\<not> notnull v \<or> py_float sf v = Inl e) \<longrightarrow> epan_check sf row st = st"
    using not_fires_unparseable [of row "''epan_water_depth''" v sf e]
    by (auto simp: epan_check_fires)
  have four: "distinct (map fst row)
        \<and> (\<forall>kv \<in> set row. \<not> notnull (snd kv) \<or> (\<exists>e. py_float sf (snd kv) = Inl e)) \<longrightarrow>
        highlight_alerts sf station_name columns row alert_rows = unflagged row alert_rows"
  proof (intro impI, elim conjE)
    assume d: "distinct (map fst row)"
      and u: "\<forall>kv \<in> set row. \<not> notnull (snd kv) \<or> (\<exists>e. py_float sf (snd kv) = Inl e)"
    have nf: "\<not> fires sf row c p" for c p
    proof
      assume "fires sf row c p"
      then obtain w where w: "series_get row c = Scalar w" "notnull w"
          and f: "\<exists>y. py_float sf w = Inr y"
        by (auto simp: fires_def split: looked.splits sum.splits)
      from w(1) have "(c, w) \<in> set row" by (rule series_get_member)
      with u have "\<not> notnull w \<or> (\<exists>e. py_float sf w = Inl e)" by force
      with w(2) f show False by auto
    qed
    from d show "highlight_alerts sf station_name columns row alert_rows
        = unflagged row alert_rows"
      by (simp add: highlight_alerts_closed station_alert_def nf list_ex_iff)
  qed
  from one two three four show ?thesis by blast
qed

theorem highlight_alerts_total_witness:
  "highlight_alerts no_parse ''AWS'' [''batt_volt'', ''rainfall'', ''wind_speed'', ''temperature'']
     [(''batt_volt'', PyStr ''low''), (''rainfall'', PyNone), (''wind_speed'', PyNum NaN),
      (''temperature'', PyObj)] [] = Inr ([[], [], [], []], [])"
  using highlight_alerts_total [where row = "[(''batt_volt'', PyStr ''low''),
      (''rainfall'', PyNone), (''wind_speed'', PyNum NaN), (''temperature'', PyObj)]"
      and sf = no_parse and station_name = "''AWS''"
      and columns = "[''batt_volt'', ''rainfall'', ''wind_speed'', ''temperature'']"
      and alert_rows = "[]"]
  by (simp add: unflagged_def no_parse_def)

text \<open>
  C10. On a River, Dam or ARS station, for every row with distinct labels, the row is flagged
  exactly when the battery check fires. When \<open>batt_volt\<close> is absent, null, not convertible
  or not below 10.5 (a value of 10.5 or more) the row is not flagged, whatever the other
  columns hold.
\<close>

theorem battery_only_stations:
  "(distinct (map fst row) \<and> station_name \<in> {''River'', ''Dam'', ''ARS''} \<longrightarrow>
      highlight_alerts sf station_name columns row alert_rows =
        (if fires sf row ''batt_volt'' (\<lambda>x. fl_lt x 10.5)
         then flagged row alert_rows else unflagged row alert_rows))
   \<and> (distinct (map fst row) \<and> station_name \<in> {''River'', ''Dam'', ''ARS''}
        \<and> (series_get row ''batt_volt'' = Absent
            \<or> (\<exists>v. series_get row ''batt_volt'' = Scalar v
                 \<and> (\<not> notnull v \<or> (\<exists>e. py_float sf v = Inl e)
                      \<or> (\<exists>q. py_float sf v = Inr (Fin q) \<and> 10.5 \<le> q)
                      \<or> (\<exists>x. py_float sf v = Inr x \<and> \<not> fl_lt x 10.5)))) \<longrightarrow>
        highlight_alerts sf station_name columns row alert_rows = unflagged row alert_rows)"
proof -
  have one: "distinct (map fst row) \<and> station_name \<in> {''River'', ''Dam'', ''ARS''} \<longrightarrow>
      highlight_alerts sf station_name columns row alert_rows =
        (if fires sf row ''batt_volt'' (\<lambda>x. fl_lt x 10.5)
         then flagged row alert_rows else unflagged row alert_rows)"
    by (auto simp: highlight_alerts_closed station_alert_def)
  have two: "distinct (map fst row) \<and> station_name \<in> {''River'', ''Dam'', ''ARS''}
        \<and> (series_get row ''batt_volt'' = Absent
            \<or> (\<exists>v. series_get row ''batt_volt'' = Scalar v
                 \<and> (\<not> notnull v \<or> (\<exists>e. py_float sf v = Inl e)
                      \<or> (\<exists>q. py_float sf v = Inr (Fin q) \<and> 10.5 \<le> q)
                      \<or> (\<exists>x. py_float sf v = Inr x \<and> \<not> fl_lt x 10.5)))) \<longrightarrow>
        highlight_alerts sf station_name columns row alert_rows = unflagged row alert_rows"
  proof (intro impI, elim conjE)
    assume d: "distinct (map fst row)" and s: "station_name \<in> {''River'', ''Dam'', ''ARS''}"
      and b: "series_get row ''batt_volt'' = Absent
            \<or> (\<exists>v. series_get row ''batt_volt'' = Scalar v
                 \<and> (\<not> notnull v \<or> (\<exists>e. py_float sf v = Inl e)
                      \<or> (\<exists>q. py_float sf v = Inr (Fin q) \<and> 10.5 \<le> q)
                      \<or> (\<exists>x. py_float sf v = Inr x \<and> \<not> fl_lt x 10.5)))"
    from b have "\<not> fires sf row ''batt_volt'' (\<lambda>x. fl_lt x 10.5)"
      by (auto simp: fires_def)
    with one d s show "highlight_alerts sf station_name columns row alert_rows
        = unflagged row alert_rows"
      by auto
  qed
  from one two show ?thesis by blast
qed

theorem battery_only_stations_witness:
  "highlight_alerts no_parse ''Dam'' [''capacity'', ''rainfall'', ''g1'', ''batt_volt'']
     [(''capacity'', PyNum (Fin 1)), (''rainfall'', PyNum (Fin 900)), (''g1'', PyNum (Fin 7)),
      (''batt_volt'', PyNum (Fin 10.5))] [] = Inr ([[], [], [], []], [])"
  using battery_only_stations [where row = "[(''capacity'', PyNum (Fin 1)),
      (''rainfall'', PyNum (Fin 900)), (''g1'', PyNum (Fin 7)),
      (''batt_volt'', PyNum (Fin 10.5))]"
      and sf = no_parse and station_name = "''Dam''"
      and columns = "[''capacity'', ''rainfall'', ''g1'', ''batt_volt'']" and alert_rows = "[]"]
  by (simp add: series_get_def unflagged_def fires_def)

section \<open>Lemmas about the query\<close>

lemma build_query_text:
  "fst (build_query table_name a) =
     ''SELECT * FROM '' @ table_name
     @ (if truthy (start_date a) \<and> truthy (end_date a)
        then if truthy (filter_column a) \<and> filter_value a \<noteq> None
             then '' WHERE '' @ fmt (date_column a) @ '' BETWEEN :start_date AND :end_date''
                  @ '' AND '' @ fmt (filter_column a) @ '' = :filter_value''
             else '' WHERE '' @ fmt (date_column a) @ '' BETWEEN :start_date AND :end_date''
        else if truthy (filter_column a) \<and> filter_value a \<noteq> None
             then '' WHERE '' @ fmt (filter_column a) @ '' = :filter_value''
             else [])
     @ (if truthy (date_column a) then '' ORDER BY '' @ fmt (date_column a) else [])"
  by (auto simp: build_query_def Let_def)

lemma build_query_params:
  "snd (build_query table_name a) =
     (if truthy (start_date a) \<and> truthy (end_date a)
      then [(''start_date'', PyStr (the (start_date a))),
            (''end_date'', PyStr (the (end_date a)))]
      else [])
     @ (if truthy (filter_column a) \<and> filter_value a \<noteq> None
        then [(''filter_value'', the (filter_value a))] else [])"
  by (simp add: build_query_def Let_def)

lemma fetch_data_store:
  "fetch_data read_sql table_name a =
     (case read_sql (fst (build_query table_name a)) (snd (build_query table_name a)) of
        Inr df \<Rightarrow> Inr (df, [])
      | Inl e \<Rightarrow>
          if is_Exception e then Inr ([], [''Database error: '' @ exc_str e]) else Inl e)"
  by (simp add: fetch_data_def split: prod.splits)

section \<open>The fetch\<close>

text \<open>
  C2, as the claim states it, fails: a table name that is not one of the six station tables
  is not rejected. The query for it is built and sent to the store, and the answer of the
  store is returned.
\<close>

theorem unknown_table_forwarded:
  "''users'' \<notin> set (map snd data_sources)
   \<and> fetch_data echo_store ''users'' defaults
       = Inr ([(''query'', [PyStr ''SELECT * FROM users ORDER BY data_date''])], [])"
  by (simp add: data_sources_def fetch_data_store build_query_text build_query_params
      echo_store_def defaults_def truthy_def fmt_def)

text \<open>
  C2, amended. \<open>fetch_data\<close> validates nothing: for every table name, one of the six or not,
  the query text starts with \<^verbatim>\<open>SELECT * FROM\<close> and that name, the text and the bound
  parameters are sent to the store, and the frame the store answers with is returned.
\<close>

theorem fetch_forwards_any_table:
  "(\<exists>rest. fst (build_query table_name a) = ''SELECT * FROM '' @ table_name @ rest)
   \<and> (read_sql (fst (build_query table_name a)) (snd (build_query table_name a)) = Inr df \<longrightarrow>
        fetch_data read_sql table_name a = Inr (df, []))"
proof -
  have "\<exists>rest. fst (build_query table_name a) = ''SELECT * FROM '' @ table_name @ rest"
    unfolding build_query_text by (intro exI) (rule refl)
  moreover have "read_sql (fst (build_query table_name a)) (snd (build_query table_name a))
      = Inr df \<longrightarrow> fetch_data read_sql table_name a = Inr (df, [])"
    by (simp add: fetch_data_store)
  ultimately show ?thesis by blast
qed

theorem fetch_forwards_any_table_witness:
  "fetch_data echo_store ''pond_data'' (defaults\<lparr>date_column := None\<rparr>)
     = Inr ([(''query'', [PyStr ''SELECT * FROM pond_data''])], [])"
  using fetch_forwards_any_table [of "''pond_data''" "defaults\<lparr>date_column := None\<rparr>"
      echo_store "[(''query'', [PyStr ''SELECT * FROM pond_data''])]"]
  by (simp add: build_query_text build_query_params echo_store_def defaults_def truthy_def)

text \<open>
  C3. When the store fails with an \<^verbatim>\<open>Exception\<close> (an operational, programming or interface
  error of the database layer), \<open>fetch_data\<close> returns the empty frame and prints one line
  with the error's message. Whatever the store does, no \<^verbatim>\<open>Exception\<close> leaves \<open>fetch_data\<close>.
\<close>

theorem fetch_failure_is_soft:
  "(read_sql (fst (build_query table_name a)) (snd (build_query table_name a)) = Inl e
      \<and> is_Exception e \<longrightarrow>
      fetch_data read_sql table_name a = Inr ([], [''Database error: '' @ exc_str e]))
   \<and> (fetch_data read_sql table_name a = Inl e \<longrightarrow> \<not> is_Exception e)"
  by (auto simp: fetch_data_store split: sum.splits if_splits)

theorem fetch_failure_is_soft_witness:
  "fetch_data down_store ''river_data'' defaults
     = Inr ([], [''Database error: connection refused''])"
  using fetch_failure_is_soft [of down_store "''river_data''" defaults
      "OperationalError ''connection refused''"]
  by (simp add: down_store_def)



end
